theory Spec2Isabelle
  imports Main "HOL-Library.AList" "HOL-Library.Sublist"
begin

section \<open>JavaScript strings and arrays\<close>

text \<open>
  Message text is a \<open>string\<close>, one \<open>char\<close> per code unit; the model covers ASCII text,
  on which \<open>toLowerCase\<close> maps exactly \<open>A\<close>..\<open>Z\<close>. \<open>trim\<close> strips tab, line feed,
  vertical tab, form feed, carriage return, space and the no-break space.
\<close>

definition lower_char :: "char \<Rightarrow> char" where
  "lower_char c =
     (case map_of (zip ''ABCDEFGHIJKLMNOPQRSTUVWXYZ'' ''abcdefghijklmnopqrstuvwxyz'') c of
        None \<Rightarrow> c
      | Some l \<Rightarrow> l)"

definition toLowerCase :: "string \<Rightarrow> string" where
  "toLowerCase s = map lower_char s"

fun starts_with :: "string \<Rightarrow> string \<Rightarrow> bool" where
  "starts_with s [] = True"
| "starts_with [] (p # ps) = False"
| "starts_with (c # cs) (p # ps) = (c = p \<and> starts_with cs ps)"

text \<open>\<open>s.includes(sub)\<close>: \<open>sub\<close> occurs in \<open>s\<close> as a contiguous run.\<close>

fun str_includes :: "string \<Rightarrow> string \<Rightarrow> bool" where
  "str_includes [] sub = (sub = [])"
| "str_includes (c # cs) sub = (starts_with (c # cs) sub \<or> str_includes cs sub)"

definition is_space :: "char \<Rightarrow> bool" where
  "is_space c =
     (c \<in> set [CHR 0x09, CHR 0x0A, CHR 0x0B, CHR 0x0C, CHR 0x0D, CHR 0x20, CHR 0xA0])"

definition trim :: "string \<Rightarrow> string" where
  "trim s = rev (dropWhile is_space (rev (dropWhile is_space s)))"

definition is_delim :: "char \<Rightarrow> bool" where
  "is_delim c = (c = CHR ''.'' \<or> c = CHR ''!'' \<or> c = CHR ''?'')"

text \<open>
  \<open>content.split(/[.!?]+/)\<close>: every maximal run of delimiters separates two pieces, so a
  leading or trailing run yields an empty piece and the empty string yields one empty piece.
  \<open>cur\<close> is the piece being read, reversed; \<open>in_run\<close> says the previous character was a
  delimiter.
\<close>

fun split_aux :: "string \<Rightarrow> bool \<Rightarrow> string \<Rightarrow> string list" where
  "split_aux cur in_run [] = [rev cur]"
| "split_aux cur in_run (c # cs) =
     (if is_delim c then
        (if in_run then split_aux cur True cs else rev cur # split_aux [] True cs)
      else split_aux (c # cur) False cs)"

definition split_sentences :: "string \<Rightarrow> string list" where
  "split_sentences content = split_aux [] False content"

text \<open>
  \<open>xs.slice(start)\<close> with one argument: a negative start counts from the end and is
  clamped at the head, a non-negative one is clamped at the length.
\<close>

definition slice :: "int \<Rightarrow> 'a list \<Rightarrow> 'a list" where
  "slice start xs =
     (if start < 0 then drop (nat (max (int (length xs) + start) 0)) xs
      else drop (nat (min start (int (length xs)))) xs)"

text \<open>\<open>s.substring(0, n)\<close> for a non-negative \<open>n\<close>.\<close>

definition substring0 :: "nat \<Rightarrow> string \<Rightarrow> string" where
  "substring0 n s = take n s"

text \<open>Decimal rendering of a number in a template literal.\<close>

fun show_nat :: "nat \<Rightarrow> string" where
  "show_nat n =
     (if n < 10 then [''0123456789'' ! n] else show_nat (n div 10) @ [''0123456789'' ! (n mod 10)])"

declare show_nat.simps [simp del]

text \<open>\<open>parts.join('\n')\<close>.\<close>

fun join_lines :: "string list \<Rightarrow> string" where
  "join_lines [] = []"
| "join_lines [x] = x"
| "join_lines (x # y # ys) = x @ [CHR 0x0A] @ join_lines (y # ys)"

section \<open>Data model of the conversation memory\<close>

datatype phase = Discovery | Requirements | Design | Implementation | Testing | Deployment

fun phase_name :: "phase \<Rightarrow> string" where
  "phase_name Discovery = ''discovery''"
| "phase_name Requirements = ''requirements''"
| "phase_name Design = ''design''"
| "phase_name Implementation = ''implementation''"
| "phase_name Testing = ''testing''"
| "phase_name Deployment = ''deployment''"

text \<open>
  A message id is the template \<open>msg_${Date.now()}_${random suffix}\<close>; the two holes are
  kept as they are.
\<close>

datatype message_id = MsgId int string

record message =
  msg_id :: message_id
  msg_role :: string
  msg_content :: string
  msg_timestamp :: int
  msg_persona :: string
  msg_phase :: phase

record decision =
  dec_decision :: string
  dec_timestamp :: int
  dec_messageId :: message_id

datatype issue_status = Open | Resolved

record issue =
  iss_issue :: string
  iss_timestamp :: int
  iss_status :: issue_status
  iss_messageId :: message_id
  iss_resolvedAt :: "int option"

record conv_context =
  currentProject :: "string option"
  businessRequirements :: "string list"
  technicalSpecs :: "string list"
  implementationPhase :: phase
  stakeholders :: "string list"
  decisions :: "decision list"
  openIssues :: "issue list"

record stored_item =
  item_id :: string
  item_type :: string
  item_payload :: string
  item_timestamp :: int

record metadata =
  createdAt :: int
  lastActivity :: int
  messageCount :: nat
  analysisResults :: "stored_item list"
  generatedArtifacts :: "stored_item list"

record session =
  sess_id :: string
  persona :: string
  messages :: "message list"
  sess_context :: conv_context
  sess_metadata :: metadata

text \<open>
  The \<open>ConversationMemory\<close> object: the \<open>Map\<close> of sessions as an association list in
  insertion order, and the two limits the constructor sets.
\<close>

record memory =
  conversations :: "(string \<times> session) list"
  maxHistoryLength :: int
  sessionTimeout :: int

definition constructor :: memory where
  "constructor =
     \<lparr>conversations = [], maxHistoryLength = 50, sessionTimeout = 24 * 60 * 60 * 1000\<rparr>"

text \<open>
  What a call reads from its environment: the clock at each \<open>new Date()\<close> or
  \<open>Date.now()\<close> and the random suffix of the message id.
\<close>

record env =
  t_created :: int
  t_init_activity :: int
  t_id :: int
  rnd :: string
  t_stamp :: int
  t_activity :: int

definition get_session :: "memory \<Rightarrow> string \<Rightarrow> session option" where
  "get_session m sessionId = map_of (conversations m) sessionId"

definition set_session :: "memory \<Rightarrow> string \<Rightarrow> session \<Rightarrow> memory" where
  "set_session m sessionId s = m\<lparr>conversations := AList.update sessionId s (conversations m)\<rparr>"

definition new_session :: "string \<Rightarrow> string \<Rightarrow> env \<Rightarrow> session" where
  "new_session sessionId p e =
     \<lparr>sess_id = sessionId, persona = p, messages = [],
      sess_context = \<lparr>currentProject = None, businessRequirements = [], technicalSpecs = [],
        implementationPhase = Discovery, stakeholders = [], decisions = [], openIssues = []\<rparr>,
      sess_metadata = \<lparr>createdAt = t_created e, lastActivity = t_init_activity e,
        messageCount = 0, analysisResults = [], generatedArtifacts = []\<rparr>\<rparr>"

definition initializeSession :: "memory \<Rightarrow> string \<Rightarrow> string \<Rightarrow> env \<Rightarrow> session \<times> memory" where
  "initializeSession m sessionId p e =
     (new_session sessionId p e, set_session m sessionId (new_session sessionId p e))"

section \<open>Context extraction\<close>

text \<open>The \<open>if\<close>/\<open>else if\<close> chain of phase detection, on the lowercased text.\<close>

definition detect_phase :: "string \<Rightarrow> phase \<Rightarrow> phase" where
  "detect_phase content old =
     (if str_includes content ''requirement'' \<or> str_includes content ''analyze'' then Requirements
      else if str_includes content ''design'' \<or> str_includes content ''architect'' then Design
      else if str_includes content ''implement'' \<or> str_includes content ''configure'' then Implementation
      else if str_includes content ''test'' \<or> str_includes content ''validate'' then Testing
      else if str_includes content ''deploy'' \<or> str_includes content ''go-live'' then Deployment
      else old)"

text \<open>
  The five \<open>extract...FromMessage\<close> helpers differ only in their three keywords: the first
  sentence whose lowercased text contains one of them, trimmed; \<open>None\<close> is \<open>null\<close>.
\<close>

fun first_sentence :: "string list \<Rightarrow> string list \<Rightarrow> string option" where
  "first_sentence kws [] = None"
| "first_sentence kws (s # ss) =
     (if \<exists>k \<in> set kws. str_includes (toLowerCase s) k then Some (trim s)
      else first_sentence kws ss)"

definition extractRequirementFromMessage :: "string \<Rightarrow> string option" where
  "extractRequirementFromMessage content =
     first_sentence [''requirement'', ''need'', ''must''] (split_sentences content)"

definition extractTechnicalSpecFromMessage :: "string \<Rightarrow> string option" where
  "extractTechnicalSpecFromMessage content =
     first_sentence [''system'', ''technical'', ''integration''] (split_sentences content)"

definition extractStakeholderFromMessage :: "string \<Rightarrow> string option" where
  "extractStakeholderFromMessage content =
     first_sentence [''team'', ''user'', ''stakeholder''] (split_sentences content)"

definition extractDecisionFromMessage :: "string \<Rightarrow> string option" where
  "extractDecisionFromMessage content =
     first_sentence [''decide'', ''choose'', ''select''] (split_sentences content)"

definition extractIssueFromMessage :: "string \<Rightarrow> string option" where
  "extractIssueFromMessage content =
     first_sentence [''issue'', ''problem'', ''challenge''] (split_sentences content)"

text \<open>
  \<open>if (x && !list.includes(x)) list.push(x)\<close>: \<open>null\<close> and the empty string are falsy.
\<close>

definition push_unique :: "string option \<Rightarrow> string list \<Rightarrow> string list" where
  "push_unique x xs =
     (case x of None \<Rightarrow> xs
      | Some r \<Rightarrow> if r \<noteq> [] \<and> r \<notin> set xs then xs @ [r] else xs)"

definition update_phase :: "string \<Rightarrow> conv_context \<Rightarrow> conv_context" where
  "update_phase content c = c\<lparr>implementationPhase := detect_phase content (implementationPhase c)\<rparr>"

definition update_requirements :: "string \<Rightarrow> message \<Rightarrow> conv_context \<Rightarrow> conv_context" where
  "update_requirements content msg c =
     (if str_includes content ''business'' \<and>
         (str_includes content ''requirement'' \<or> str_includes content ''process'')
      then c\<lparr>businessRequirements :=
             push_unique (extractRequirementFromMessage (msg_content msg)) (businessRequirements c)\<rparr>
      else c)"

definition update_specs :: "string \<Rightarrow> message \<Rightarrow> conv_context \<Rightarrow> conv_context" where
  "update_specs content msg c =
     (if str_includes content ''technical'' \<or> str_includes content ''system'' \<or>
         str_includes content ''integration''
      then c\<lparr>technicalSpecs :=
             push_unique (extractTechnicalSpecFromMessage (msg_content msg)) (technicalSpecs c)\<rparr>
      else c)"

definition update_stakeholders :: "string \<Rightarrow> message \<Rightarrow> conv_context \<Rightarrow> conv_context" where
  "update_stakeholders content msg c =
     (if str_includes content ''stakeholder'' \<or> str_includes content ''team'' \<or>
         str_includes content ''user''
      then c\<lparr>stakeholders :=
             push_unique (extractStakeholderFromMessage (msg_content msg)) (stakeholders c)\<rparr>
      else c)"

definition update_decisions :: "string \<Rightarrow> message \<Rightarrow> conv_context \<Rightarrow> conv_context" where
  "update_decisions content msg c =
     (if str_includes content ''decide'' \<or> str_includes content ''choose'' \<or>
         str_includes content ''select''
      then (case extractDecisionFromMessage (msg_content msg) of
              None \<Rightarrow> c
            | Some d \<Rightarrow>
                if d \<noteq> [] then
                  c\<lparr>decisions := decisions c @
                     [\<lparr>dec_decision = d, dec_timestamp = msg_timestamp msg,
                       dec_messageId = msg_id msg\<rparr>]\<rparr>
                else c)
      else c)"

definition update_issues :: "string \<Rightarrow> message \<Rightarrow> conv_context \<Rightarrow> conv_context" where
  "update_issues content msg c =
     (if str_includes content ''issue'' \<or> str_includes content ''problem'' \<or>
         str_includes content ''challenge''
      then (case extractIssueFromMessage (msg_content msg) of
              None \<Rightarrow> c
            | Some i \<Rightarrow>
                if i \<noteq> [] then
                  c\<lparr>openIssues := openIssues c @
                     [\<lparr>iss_issue = i, iss_timestamp = msg_timestamp msg, iss_status = Open,
                       iss_messageId = msg_id msg, iss_resolvedAt = None\<rparr>]\<rparr>
                else c)
      else c)"

text \<open>\<open>updateContextFromMessage\<close>: the six checks in the order of the source.\<close>

definition updateContextFromMessage :: "conv_context \<Rightarrow> message \<Rightarrow> conv_context" where
  "updateContextFromMessage c msg =
     (let content = toLowerCase (msg_content msg) in
      update_issues content msg
        (update_decisions content msg
          (update_stakeholders content msg
            (update_specs content msg
              (update_requirements content msg
                (update_phase content c))))))"

section \<open>The session store\<close>

text \<open>
  \<open>addMessage\<close>: the session is created on first use with persona \<open>general\<close>; the message
  is pushed, the counter incremented, the history trimmed with \<open>slice(-maxHistoryLength)\<close>
  when it is too long, and the context updated. The session object is mutated in place, so
  the entry of the \<open>Map\<close> keeps its position.
\<close>

definition trim_history :: "int \<Rightarrow> message list \<Rightarrow> message list" where
  "trim_history maxLen ms = (if int (length ms) > maxLen then slice (- maxLen) ms else ms)"

definition addMessage :: "memory \<Rightarrow> string \<Rightarrow> string \<Rightarrow> string \<Rightarrow> env \<Rightarrow> message \<times> memory" where
  "addMessage m sessionId text role e =
     (let (s0, m0) = (case get_session m sessionId of
                        None \<Rightarrow> initializeSession m sessionId ''general'' e
                      | Some s \<Rightarrow> (s, m));
          messageObj = \<lparr>msg_id = MsgId (t_id e) (rnd e), msg_role = role, msg_content = text,
                        msg_timestamp = t_stamp e, msg_persona = persona s0,
                        msg_phase = implementationPhase (sess_context s0)\<rparr>;
          s1 = s0\<lparr>messages := messages s0 @ [messageObj]\<rparr>;
          s2 = s1\<lparr>sess_metadata := (sess_metadata s1)\<lparr>lastActivity := t_activity e,
                  messageCount := messageCount (sess_metadata s1) + 1\<rparr>\<rparr>;
          s3 = s2\<lparr>messages := trim_history (maxHistoryLength m0) (messages s2)\<rparr>;
          s4 = s3\<lparr>sess_context := updateContextFromMessage (sess_context s3) messageObj\<rparr>
      in (messageObj, set_session m0 sessionId s4))"

text \<open>A run of \<open>addMessage\<close> calls on one session, each with its text, role and environment.\<close>

fun addMessages :: "memory \<Rightarrow> string \<Rightarrow> (string \<times> string \<times> env) list \<Rightarrow> message list \<times> memory" where
  "addMessages m sessionId [] = ([], m)"
| "addMessages m sessionId ((text, role, e) # rest) =
     (let (msg, m1) = addMessage m sessionId text role e;
          (msgs, m2) = addMessages m1 sessionId rest
      in (msg # msgs, m2))"

text \<open>
  \<open>getConversationHistory\<close>: \<open>limit\<close> is \<open>null\<close> (\<open>None\<close>) or a number; \<open>if (limit)\<close>
  is false for \<open>null\<close> and for \<open>0\<close>.
\<close>

definition getConversationHistory :: "memory \<Rightarrow> string \<Rightarrow> int option \<Rightarrow> message list" where
  "getConversationHistory m sessionId limit =
     (case get_session m sessionId of
        None \<Rightarrow> []
      | Some s \<Rightarrow>
          (case limit of
             None \<Rightarrow> messages s
           | Some l \<Rightarrow> if l \<noteq> 0 then slice (- l) (messages s) else messages s))"

record session_snapshot =
  snap_sessionId :: string
  snap_persona :: string
  snap_context :: conv_context
  snap_metadata :: metadata
  snap_recentMessages :: "message list"

definition getSessionContext :: "memory \<Rightarrow> string \<Rightarrow> session_snapshot option" where
  "getSessionContext m sessionId =
     (case get_session m sessionId of
        None \<Rightarrow> None
      | Some s \<Rightarrow>
          Some \<lparr>snap_sessionId = sessionId, snap_persona = persona s,
                snap_context = sess_context s, snap_metadata = sess_metadata s,
                snap_recentMessages = slice (- 10) (messages s)\<rparr>)"

text \<open>\<open>resolveIssue\<close>: the first issue of that message id is marked resolved.\<close>

fun resolve_first :: "message_id \<Rightarrow> int \<Rightarrow> issue list \<Rightarrow> issue list option" where
  "resolve_first issueId now [] = None"
| "resolve_first issueId now (i # is) =
     (if iss_messageId i = issueId
      then Some (i\<lparr>iss_status := Resolved, iss_resolvedAt := Some now\<rparr> # is)
      else map_option ((#) i) (resolve_first issueId now is))"

definition resolveIssue :: "memory \<Rightarrow> string \<Rightarrow> message_id \<Rightarrow> int \<Rightarrow> bool \<times> memory" where
  "resolveIssue m sessionId issueId now =
     (case get_session m sessionId of
        None \<Rightarrow> (False, m)
      | Some s \<Rightarrow>
          (case resolve_first issueId now (openIssues (sess_context s)) of
             None \<Rightarrow> (False, m)
           | Some is \<Rightarrow>
               (True, set_session m sessionId
                        (s\<lparr>sess_context := (sess_context s)\<lparr>openIssues := is\<rparr>\<rparr>))))"

text \<open>
  \<open>cleanupExpiredSessions\<close>: a first loop over the entries collects the expired ids, a
  second deletes them; the number collected is returned.
\<close>

definition is_expired :: "memory \<Rightarrow> int \<Rightarrow> session \<Rightarrow> bool" where
  "is_expired m now s = (now - lastActivity (sess_metadata s) > sessionTimeout m)"

definition delete_session :: "string \<Rightarrow> memory \<Rightarrow> memory" where
  "delete_session sessionId m = m\<lparr>conversations := AList.delete sessionId (conversations m)\<rparr>"

definition cleanupExpiredSessions :: "memory \<Rightarrow> int \<Rightarrow> nat \<times> memory" where
  "cleanupExpiredSessions m now =
     (let expiredSessions = map fst (filter (\<lambda>(sessionId, s). is_expired m now s) (conversations m))
      in (length expiredSessions, fold delete_session expiredSessions m))"

section \<open>The context summary\<close>

record summary_message =
  sm_role :: string
  sm_content :: string
  sm_timestamp :: int

record summary =
  sum_persona :: string
  sum_phase :: phase
  sum_messageCount :: nat
  sum_businessRequirements :: "string list"
  sum_technicalSpecs :: "string list"
  sum_recentDecisions :: "decision list"
  sum_openIssues :: "issue list"
  sum_recentMessages :: "summary_message list"

definition summarize_message :: "message \<Rightarrow> summary_message" where
  "summarize_message msg =
     \<lparr>sm_role = msg_role msg,
      sm_content = substring0 200 (msg_content msg) @
                   (if length (msg_content msg) > 200 then ''...'' else []),
      sm_timestamp = msg_timestamp msg\<rparr>"

definition build_summary :: "session \<Rightarrow> summary" where
  "build_summary s =
     \<lparr>sum_persona = persona s,
      sum_phase = implementationPhase (sess_context s),
      sum_messageCount = messageCount (sess_metadata s),
      sum_businessRequirements = slice (- 5) (businessRequirements (sess_context s)),
      sum_technicalSpecs = slice (- 3) (technicalSpecs (sess_context s)),
      sum_recentDecisions = slice (- 3) (decisions (sess_context s)),
      sum_openIssues = slice (- 3) (filter (\<lambda>i. iss_status i = Open) (openIssues (sess_context s))),
      sum_recentMessages = map summarize_message (slice (- 5) (messages s))\<rparr>"

definition nl :: string where
  "nl = [CHR 0x0A]"

text \<open>
  The template literal of \<open>generateContextSummary\<close>; \<open>date_str\<close> is the rendering of a
  \<open>Date\<close> inside a template, which depends on the time zone of the process.
\<close>

definition render_summary :: "(int \<Rightarrow> string) \<Rightarrow> summary \<Rightarrow> string" where
  "render_summary date_str sm =
     nl @ ''CONVERSATION CONTEXT:'' @ nl @
     ''- Current Persona: '' @ sum_persona sm @ nl @
     ''- Implementation Phase: '' @ phase_name (sum_phase sm) @ nl @
     ''- Total Messages: '' @ show_nat (sum_messageCount sm) @ nl @
     nl @ ''BUSINESS REQUIREMENTS IDENTIFIED:'' @ nl @
     join_lines (map (\<lambda>req. ''- '' @ req) (sum_businessRequirements sm)) @ nl @
     nl @ ''TECHNICAL SPECIFICATIONS:'' @ nl @
     join_lines (map (\<lambda>spec. ''- '' @ spec) (sum_technicalSpecs sm)) @ nl @
     nl @ ''RECENT DECISIONS:'' @ nl @
     join_lines (map (\<lambda>dec. ''- '' @ dec_decision dec @ '' ('' @ date_str (dec_timestamp dec) @ '')'')
                   (sum_recentDecisions sm)) @ nl @
     nl @ ''OPEN ISSUES:'' @ nl @
     join_lines (map (\<lambda>i. ''- '' @ iss_issue i @ '' ('' @ date_str (iss_timestamp i) @ '')'')
                   (sum_openIssues sm)) @ nl @
     nl @ ''RECENT CONVERSATION:'' @ nl @
     join_lines (map (\<lambda>msg. sm_role msg @ '': '' @ sm_content msg) (sum_recentMessages sm)) @ nl @
     ''    ''"

definition generateContextSummary :: "(int \<Rightarrow> string) \<Rightarrow> memory \<Rightarrow> string \<Rightarrow> string" where
  "generateContextSummary date_str m sessionId =
     (case get_session m sessionId of
        None \<Rightarrow> ''No previous context available.''
      | Some s \<Rightarrow> render_summary date_str (build_summary s))"

section \<open>The clear route\<close>

datatype js_error = TypeError string | Error string


text \<open>
  The route \<open>DELETE /clear/:sessionId\<close> calls \<open>conversationMemory.clearMemory(sessionId)\<close>
  on an instance of the class \<open>ConversationMemory\<close>. The class declares the methods listed
  below and no \<open>clearMemory\<close>, so the property read yields \<open>undefined\<close> and the call throws
  a \<open>TypeError\<close> before anything is removed; the handler of the route catches it and answers
  with status 500.
\<close>

definition ConversationMemory_methods :: "string list" where
  "ConversationMemory_methods =
     [''initializeSession'', ''addMessage'', ''getConversationHistory'', ''getSessionContext'',
      ''updateContextFromMessage'', ''extractRequirementFromMessage'',
      ''extractTechnicalSpecFromMessage'', ''extractStakeholderFromMessage'',
      ''extractDecisionFromMessage'', ''extractIssueFromMessage'', ''addAnalysisResult'',
      ''addGeneratedArtifact'', ''updatePersona'', ''generateContextSummary'', ''resolveIssue'',
      ''cleanupExpiredSessions'', ''exportSession'', ''getConversationStats'']"

definition clearMemory :: "memory \<Rightarrow> string \<Rightarrow> js_error + memory" where
  "clearMemory m sessionId = Inl (TypeError ''conversationMemory.clearMemory is not a function'')"

record http_response =
  status :: nat
  body_success :: bool
  body_text :: string

definition clear_route :: "memory \<Rightarrow> string \<Rightarrow> http_response \<times> memory" where
  "clear_route m sessionId =
     (case clearMemory m sessionId of
        Inr m' \<Rightarrow>
          (\<lparr>status = 200, body_success = True,
            body_text = ''Conversation cleared successfully''\<rparr>, m')
      | Inl err \<Rightarrow>
          (\<lparr>status = 500, body_success = False,
            body_text = ''Failed to clear conversation''\<rparr>, m))"

section \<open>The chat orchestrator\<close>

text \<open>
  \<open>try { body } catch (error) { handler }\<close>: a function that may throw returns a sum, with
  \<open>Inl\<close> for the error thrown.
\<close>

definition try_catch :: "js_error + 'a \<Rightarrow> (js_error \<Rightarrow> js_error + 'a) \<Rightarrow> js_error + 'a" where
  "try_catch body handler = (case body of Inl error \<Rightarrow> handler error | Inr v \<Rightarrow> Inr v)"

text \<open>
  The \<open>prompts\<close> module: each template is a property that may be absent (\<open>None\<close>) and,
  when called with the context, returns the prompt or throws.
\<close>

record 'ctx prompt_templates =
  sapConsultantPrompt :: "('ctx \<Rightarrow> js_error + string) option"
  erpAnalystPrompt :: "('ctx \<Rightarrow> js_error + string) option"
  technicalArchitectPrompt :: "('ctx \<Rightarrow> js_error + string) option"
  businessAnalystPrompt :: "('ctx \<Rightarrow> js_error + string) option"
  implementationSpecialistPrompt :: "('ctx \<Rightarrow> js_error + string) option"
  generalERPPrompt :: "('ctx \<Rightarrow> js_error + string) option"

text \<open>\<open>template ? template(context) : fallback\<close>.\<close>

definition template_or :: "('ctx \<Rightarrow> js_error + string) option \<Rightarrow> 'ctx \<Rightarrow> string \<Rightarrow> js_error + string" where
  "template_or template ctx fallback =
     (case template of None \<Rightarrow> Inr fallback | Some f \<Rightarrow> f ctx)"

text \<open>The \<open>switch\<close> on the persona inside \<open>getSystemPrompt\<close>.\<close>

definition select_prompt :: "'ctx prompt_templates \<Rightarrow> string \<Rightarrow> 'ctx \<Rightarrow> js_error + string" where
  "select_prompt templates tag ctx =
     (if tag = ''sap_consultant'' then
        template_or (sapConsultantPrompt templates) ctx ''You are EVA, a SAP consultant.''
      else if tag = ''erp_analyst'' then
        template_or (erpAnalystPrompt templates) ctx ''You are EVA, an ERP analyst.''
      else if tag = ''technical_architect'' then
        template_or (technicalArchitectPrompt templates) ctx ''You are EVA, a technical architect.''
      else if tag = ''business_analyst'' then
        template_or (businessAnalystPrompt templates) ctx ''You are EVA, a business analyst.''
      else if tag = ''implementation_specialist'' then
        template_or (implementationSpecialistPrompt templates) ctx
          ''You are EVA, an implementation specialist.''
      else template_or (generalERPPrompt templates) ctx ''You are EVA, an expert ERP assistant.'')"

text \<open>
  \<open>getSystemPrompt\<close> wraps the \<open>switch\<close> in its own \<open>try\<close>/\<open>catch\<close> and answers an error
  of a template with a fixed prompt.
\<close>

definition getSystemPrompt :: "'ctx prompt_templates \<Rightarrow> string \<Rightarrow> 'ctx \<Rightarrow> js_error + string" where
  "getSystemPrompt templates tag ctx =
     try_catch (select_prompt templates tag ctx)
       (\<lambda>error. Inr (''You are EVA, an expert ERP assistant. '' @
                       ''Help the user with their ERP-related questions.''))"

















section \<open>The specification's vocabulary\<close>

text \<open>The phases with their terms, in the order in which the specification lists them.\<close>

definition phase_order :: "phase list" where
  "phase_order = [Requirements, Design, Implementation, Testing, Deployment]"

fun phase_terms :: "phase \<Rightarrow> string list" where
  "phase_terms Discovery = []"
| "phase_terms Requirements = [''requirement'', ''analyze'']"
| "phase_terms Design = [''design'', ''architect'']"
| "phase_terms Implementation = [''implement'', ''configure'']"
| "phase_terms Testing = [''test'', ''validate'']"
| "phase_terms Deployment = [''deploy'', ''go-live'']"

definition mentions :: "string \<Rightarrow> phase \<Rightarrow> bool" where
  "mentions content p = (\<exists>k \<in> set (phase_terms p). str_includes content k)"

text \<open>The last \<open>n\<close> elements of a sequence, in their original order.\<close>

definition last_n :: "nat \<Rightarrow> 'a list \<Rightarrow> 'a list" where
  "last_n n xs = rev (take n (rev xs))"

text \<open>A text cut to \<open>n\<close> characters, with \<open>...\<close> appended if and only if it was longer.\<close>

definition truncated :: "nat \<Rightarrow> string \<Rightarrow> string" where
  "truncated n s = (if length s > n then take n s @ ''...'' else s)"

section \<open>Sample data\<close>

definition env0 :: env where
  "env0 = \<lparr>t_created = 1000, t_init_activity = 1000, t_id = 1000, rnd = ''k3j9x0q1z'',
            t_stamp = 1000, t_activity = 1000\<rparr>"

definition user_message :: "string \<Rightarrow> message" where
  "user_message text =
     \<lparr>msg_id = MsgId 1000 ''k3j9x0q1z'', msg_role = ''user'', msg_content = text,
      msg_timestamp = 1000, msg_persona = ''general'', msg_phase = Discovery\<rparr>"

definition fresh_context :: conv_context where
  "fresh_context = sess_context (new_session ''s1'' ''general'' env0)"

definition multi_currency :: string where
  "multi_currency =
     ''We need a business requirement that the system must support multi-currency,''"

definition sap_decision :: message where
  "sap_decision = user_message ''We decided to choose SAP over Oracle''"

definition twice_told :: message where
  "twice_told =
     user_message ''We decided the business requirement is multi-currency. Our team must use the system''"

definition sample_session :: session where
  "sample_session =
     (new_session ''s1'' ''general'' env0)
       \<lparr>messages := [user_message ''first'', user_message ''second'']\<rparr>"

definition sample_memory :: memory where
  "sample_memory = set_session constructor ''s1'' sample_session"

text \<open>Two sessions: one last active at time 0, one at time 90000000.\<close>

definition two_sessions :: memory where
  "two_sessions =
     set_session
       (set_session constructor ''old'' (new_session ''old'' ''general'' (env0\<lparr>t_init_activity := 0\<rparr>)))
       ''new'' (new_session ''new'' ''general'' (env0\<lparr>t_init_activity := 90000000\<rparr>))"










definition sample_inputs :: "(string \<times> string \<times> env) list" where
  "sample_inputs = replicate 51 (''Please configure the ledger'', ''user'', env0)"

text \<open>
  A conversation of seven messages, after which the issue of the fifth is resolved, and the
  session it leaves in the store.
\<close>

definition story_env :: "int \<Rightarrow> env" where
  "story_env t = \<lparr>t_created = t, t_init_activity = t, t_id = t, rnd = ''k3j9x0q1z'',
                  t_stamp = t, t_activity = t\<rparr>"

definition story_line :: "string \<Rightarrow> string" where
  "story_line k =
     ''Business requirement '' @ k @ '': the system must post invoices. We decide on option '' @ k @
     ''. Problem '' @ k @ '' remains''"

definition story_inputs :: "(string \<times> string \<times> env) list" where
  "story_inputs =
     [(story_line ''1'', ''user'', story_env 1000),
      (story_line ''2'', ''user'', story_env 2000),
      (story_line ''3'', ''user'', story_env 3000),
      (story_line ''4'', ''user'', story_env 4000),
      (story_line ''5'', ''user'', story_env 5000),
      (story_line ''6'', ''user'', story_env 6000),
      (replicate 201 (CHR ''a''), ''assistant'', story_env 7000)]"

definition story_memory :: memory where
  "story_memory =
     snd (resolveIssue (snd (addMessages constructor ''s1'' story_inputs)) ''s1''
            (MsgId 5000 ''k3j9x0q1z'') 8000)"

definition story_message :: "string \<Rightarrow> string \<Rightarrow> int \<Rightarrow> phase \<Rightarrow> message" where
  "story_message role body t ph =
     \<lparr>msg_id = MsgId t ''k3j9x0q1z'', msg_role = role, msg_content = body, msg_timestamp = t,
      msg_persona = ''general'', msg_phase = ph\<rparr>"

definition story_requirement :: "string \<Rightarrow> string" where
  "story_requirement k = ''Business requirement '' @ k @ '': the system must post invoices''"

definition story_decision :: "string \<Rightarrow> int \<Rightarrow> decision" where
  "story_decision k t =
     \<lparr>dec_decision = ''We decide on option '' @ k, dec_timestamp = t,
      dec_messageId = MsgId t ''k3j9x0q1z''\<rparr>"

definition story_issue :: "string \<Rightarrow> int \<Rightarrow> issue" where
  "story_issue k t =
     \<lparr>iss_issue = ''Problem '' @ k @ '' remains'', iss_timestamp = t, iss_status = Open,
      iss_messageId = MsgId t ''k3j9x0q1z'', iss_resolvedAt = None\<rparr>"

definition story_session :: session where
  "story_session =
     \<lparr>sess_id = ''s1'', persona = ''general'',
      messages =
        [story_message ''user'' (story_line ''1'') 1000 Discovery,
         story_message ''user'' (story_line ''2'') 2000 Requirements,
         story_message ''user'' (story_line ''3'') 3000 Requirements,
         story_message ''user'' (story_line ''4'') 4000 Requirements,
         story_message ''user'' (story_line ''5'') 5000 Requirements,
         story_message ''user'' (story_line ''6'') 6000 Requirements,
         story_message ''assistant'' (replicate 201 (CHR ''a'')) 7000 Requirements],
      sess_context =
        \<lparr>currentProject = None,
         businessRequirements = map story_requirement [''1'', ''2'', ''3'', ''4'', ''5'', ''6''],
         technicalSpecs = map story_requirement [''1'', ''2'', ''3'', ''4'', ''5'', ''6''],
         implementationPhase = Requirements,
         stakeholders = [],
         decisions =
           [story_decision ''1'' 1000, story_decision ''2'' 2000, story_decision ''3'' 3000,
            story_decision ''4'' 4000, story_decision ''5'' 5000, story_decision ''6'' 6000],
         openIssues =
           [story_issue ''1'' 1000, story_issue ''2'' 2000, story_issue ''3'' 3000,
            story_issue ''4'' 4000,
            (story_issue ''5'' 5000)\<lparr>iss_status := Resolved, iss_resolvedAt := Some 8000\<rparr>,
            story_issue ''6'' 6000]\<rparr>,
      sess_metadata =
        \<lparr>createdAt = 1000, lastActivity = 7000, messageCount = 7, analysisResults = [],
         generatedArtifacts = []\<rparr>\<rparr>"

section \<open>Auxiliary notions for the proofs\<close>

text \<open>The session \<open>addMessage\<close> works on: the stored one, or the one it creates.\<close>

definition session_or_new :: "memory \<Rightarrow> string \<Rightarrow> env \<Rightarrow> session" where
  "session_or_new m sessionId e =
     (case get_session m sessionId of None \<Rightarrow> new_session sessionId ''general'' e | Some s \<Rightarrow> s)"

definition history_of :: "memory \<Rightarrow> string \<Rightarrow> message list" where
  "history_of m sessionId = (case get_session m sessionId of None \<Rightarrow> [] | Some s \<Rightarrow> messages s)"

definition count_of :: "memory \<Rightarrow> string \<Rightarrow> nat" where
  "count_of m sessionId =
     (case get_session m sessionId of None \<Rightarrow> 0 | Some s \<Rightarrow> messageCount (sess_metadata s))"

text \<open>A keyword without sentence delimiters and without white space.\<close>

definition plain_keyword :: "string \<Rightarrow> bool" where
  "plain_keyword k = (k \<noteq> [] \<and> (\<forall>c \<in> set k. \<not> is_delim c \<and> \<not> is_space c))"

section \<open>Lists: the last elements of a sequence\<close>

lemma last_n_drop: "last_n n xs = drop (length xs - n) xs"
  by (simp add: last_n_def rev_take)

lemma length_last_n: "length (last_n n xs) = min n (length xs)"
  by (simp add: last_n_def)

lemma slice_neg_last_n: "0 < l \<Longrightarrow> slice (- l) xs = last_n (nat l) xs"
  by (auto simp: slice_def last_n_drop max_def intro: arg_cong [where f = "\<lambda>k. drop k xs"])

lemma trim_history_last_n: "0 < n \<Longrightarrow> trim_history n ms = last_n (nat n) ms"
  by (auto simp: trim_history_def slice_neg_last_n last_n_drop)

lemma last_n_last_n_append: "last_n n (last_n n ys @ zs) = last_n n (ys @ zs)"
  by (simp add: last_n_def min_def)

section \<open>Phase detection\<close>

lemma phase_update_issues [simp]:
  "implementationPhase (update_issues content msg c) = implementationPhase c"
  by (simp add: update_issues_def split: option.splits)

lemma phase_update_decisions [simp]:
  "implementationPhase (update_decisions content msg c) = implementationPhase c"
  by (simp add: update_decisions_def split: option.splits)

lemma phase_update_stakeholders [simp]:
  "implementationPhase (update_stakeholders content msg c) = implementationPhase c"
  by (simp add: update_stakeholders_def)

lemma phase_update_specs [simp]:
  "implementationPhase (update_specs content msg c) = implementationPhase c"
  by (simp add: update_specs_def)

lemma phase_update_requirements [simp]:
  "implementationPhase (update_requirements content msg c) = implementationPhase c"
  by (simp add: update_requirements_def)

lemma phase_after_update:
  "implementationPhase (updateContextFromMessage c msg) =
     detect_phase (toLowerCase (msg_content msg)) (implementationPhase c)"
  by (simp add: updateContextFromMessage_def Let_def update_phase_def)

lemma detect_phase_find:
  "detect_phase content old =
     (case find (mentions content) phase_order of None \<Rightarrow> old | Some p \<Rightarrow> p)"
  by (simp add: detect_phase_def phase_order_def mentions_def)

text \<open>
  C1, as the code has it: the phase checks form an \<open>if\<close>/\<open>else if\<close> chain, so when the
  lowercased text of a message contains terms of several phases, the first phase of the
  fixed order whose terms occur determines \<open>implementationPhase\<close>; the earlier-listed phase
  wins, and requirements has the highest precedence.
\<close>

theorem C1_first_listed_phase_wins:
  assumes "find (mentions (toLowerCase (msg_content msg))) phase_order = Some p"
  shows "implementationPhase (updateContextFromMessage c msg) = p"
  using assms by (simp add: phase_after_update detect_phase_find)

theorem C1_first_listed_phase_wins_witness:
  "find (mentions (toLowerCase (msg_content (user_message ''Test and deploy'')))) phase_order
     = Some Testing
   \<and> mentions (toLowerCase (msg_content (user_message ''Test and deploy''))) Deployment
   \<and> implementationPhase (updateContextFromMessage fresh_context (user_message ''Test and deploy''))
     = Testing"
proof -
  have h: "find (mentions (toLowerCase (msg_content (user_message ''Test and deploy'')))) phase_order
             = Some Testing"
    by code_simp
  have d: "mentions (toLowerCase (msg_content (user_message ''Test and deploy''))) Deployment"
    by code_simp
  from h d C1_first_listed_phase_wins [OF h, of fresh_context] show ?thesis by simp
qed

text \<open>
  C1 as stated fails: the text \<open>test and deploy\<close> contains a testing term and a deployment
  term, and the phase becomes testing, not deployment.
\<close>

theorem C1_last_listed_phase_counterexample:
  "str_includes (toLowerCase ''test and deploy'') ''test''
   \<and> str_includes (toLowerCase ''test and deploy'') ''deploy''
   \<and> implementationPhase (updateContextFromMessage fresh_context (user_message ''test and deploy''))
     = Testing
   \<and> Testing \<noteq> Deployment"
  by code_simp

section \<open>Appending messages\<close>

lemma get_set_session [simp]: "get_session (set_session m sid s) sid = Some s"
  by (simp add: get_session_def set_session_def update_conv')

lemma limits_set_session [simp]:
  "maxHistoryLength (set_session m sid s) = maxHistoryLength m"
  "sessionTimeout (set_session m sid s) = sessionTimeout m"
  by (simp_all add: set_session_def)

lemma addMessage_session:
  "\<exists>s'. get_session (snd (addMessage m sid body role e)) sid = Some s'
     \<and> messages s' = trim_history (maxHistoryLength m)
          (messages (session_or_new m sid e) @ [fst (addMessage m sid body role e)])
     \<and> messageCount (sess_metadata s') = messageCount (sess_metadata (session_or_new m sid e)) + 1"
  by (cases "get_session m sid")
     (simp_all add: addMessage_def session_or_new_def initializeSession_def Let_def)

lemma addMessage_limits [simp]:
  "maxHistoryLength (snd (addMessage m sid body role e)) = maxHistoryLength m"
  "sessionTimeout (snd (addMessage m sid body role e)) = sessionTimeout m"
  by (cases "get_session m sid"; simp add: addMessage_def initializeSession_def Let_def)+

lemma session_or_new_messages: "messages (session_or_new m sid e) = history_of m sid"
  by (simp add: session_or_new_def history_of_def new_session_def split: option.splits)

lemma session_or_new_count:
  "messageCount (sess_metadata (session_or_new m sid e)) = count_of m sid"
  by (simp add: session_or_new_def count_of_def new_session_def split: option.splits)

lemma addMessage_step:
  assumes "addMessage m sid body role e = (msg, m1)"
  shows "\<exists>s'. get_session m1 sid = Some s'
     \<and> messages s' = trim_history (maxHistoryLength m) (history_of m sid @ [msg])
     \<and> messageCount (sess_metadata s') = count_of m sid + 1"
  using addMessage_session [of m sid body role e] assms
  by (simp add: session_or_new_messages session_or_new_count)

lemma addMessage_step_limit:
  assumes "addMessage m sid body role e = (msg, m1)"
  shows "maxHistoryLength m1 = maxHistoryLength m"
  using addMessage_limits(1) [of m sid body role e] assms by simp

lemma addMessages_run:
  assumes "0 < maxHistoryLength m" and "addMessages m sid (x # rest) = (created, m')"
  shows "\<exists>s'. get_session m' sid = Some s'
     \<and> messages s' = last_n (nat (maxHistoryLength m)) (history_of m sid @ created)
     \<and> maxHistoryLength m' = maxHistoryLength m"
  using assms
proof (induction rest arbitrary: m x created m')
  case Nil
  obtain body role e where x: "x = (body, role, e)" by (cases x) auto
  obtain msg m1 where step: "addMessage m sid body role e = (msg, m1)" by fastforce
  with Nil.prems x have eq: "created = [msg]" "m' = m1" by simp_all
  from addMessage_step [OF step] addMessage_step_limit [OF step] Nil.prems(1) eq
  show ?case by (auto simp: trim_history_last_n)
next
  case (Cons y rest)
  obtain body role e where x: "x = (body, role, e)" by (cases x) auto
  obtain msg m1 where step: "addMessage m sid body role e = (msg, m1)" by fastforce
  obtain msgs m2 where run: "addMessages m1 sid (y # rest) = (msgs, m2)" by fastforce
  from Cons.prems(2) x step run have eq: "created = msg # msgs" "m' = m2" by simp_all
  have lim: "maxHistoryLength m1 = maxHistoryLength m" by (rule addMessage_step_limit [OF step])
  from addMessage_step [OF step] obtain s1 where s1: "get_session m1 sid = Some s1"
    "messages s1 = trim_history (maxHistoryLength m) (history_of m sid @ [msg])" by blast
  have h1: "history_of m1 sid = last_n (nat (maxHistoryLength m)) (history_of m sid @ [msg])"
    using s1 Cons.prems(1) by (simp add: history_of_def trim_history_last_n)
  from Cons.IH [OF _ run] lim Cons.prems(1) obtain s' where s': "get_session m2 sid = Some s'"
    "messages s' = last_n (nat (maxHistoryLength m1)) (history_of m1 sid @ msgs)"
    "maxHistoryLength m2 = maxHistoryLength m1" by auto
  have "messages s' = last_n (nat (maxHistoryLength m)) (history_of m sid @ created)"
    using s'(2) h1 lim eq
      last_n_last_n_append [of "nat (maxHistoryLength m)" "history_of m sid @ [msg]" msgs]
    by simp
  with s' lim eq show ?case by simp
qed

lemma addMessages_count:
  assumes "addMessages m sid (x # rest) = (created, m')"
  shows "\<exists>s'. get_session m' sid = Some s'
     \<and> messageCount (sess_metadata s') = count_of m sid + length (x # rest)"
  using assms
proof (induction rest arbitrary: m x created m')
  case Nil
  obtain body role e where x: "x = (body, role, e)" by (cases x) auto
  obtain msg m1 where step: "addMessage m sid body role e = (msg, m1)" by fastforce
  with Nil.prems x have eq: "m' = m1" by simp
  from addMessage_step [OF step] eq show ?case by auto
next
  case (Cons y rest)
  obtain body role e where x: "x = (body, role, e)" by (cases x) auto
  obtain msg m1 where step: "addMessage m sid body role e = (msg, m1)" by fastforce
  obtain msgs m2 where run: "addMessages m1 sid (y # rest) = (msgs, m2)" by fastforce
  from Cons.prems x step run have eq: "m' = m2" by simp
  from addMessage_step [OF step] have c1: "count_of m1 sid = count_of m sid + 1"
    by (auto simp: count_of_def)
  from Cons.IH [OF run] c1 eq show ?case by auto
qed

lemma get_set_session_other [simp]:
  "sid' \<noteq> sid \<Longrightarrow> get_session (set_session m sid s) sid' = get_session m sid'"
  by (simp add: get_session_def set_session_def update_conv')

lemma addMessage_other:
  "sid' \<noteq> sid \<Longrightarrow> get_session (snd (addMessage m sid body role e)) sid' = get_session m sid'"
  by (cases "get_session m sid")
     (simp_all add: addMessage_def initializeSession_def Let_def)

lemma addMessages_other:
  "sid' \<noteq> sid \<Longrightarrow> get_session (snd (addMessages m sid inputs)) sid' = get_session m sid'"
proof (induction inputs arbitrary: m)
  case Nil
  then show ?case by simp
next
  case (Cons x rest)
  obtain body role e where x: "x = (body, role, e)" by (cases x) auto
  from Cons.IH [OF Cons.prems, of "snd (addMessage m sid body role e)"]
    addMessage_other [OF Cons.prems, of m body role e]
  show ?case by (simp add: x case_prod_unfold Let_def)
qed

text \<open>
  C4: after any non-empty run of \<open>addMessage\<close> calls on a session, the session holds at most
  \<open>maxHistoryLength\<close> messages (50 as constructed), and they are the most recent ones of its
  earlier history followed by the appended messages, in the original order: what trimming
  removes is the oldest. The limit and the other sessions are left as they were.
\<close>

theorem C4_history_bounded_oldest_dropped:
  assumes "0 < maxHistoryLength m" and "inputs \<noteq> []"
    and "addMessages m sessionId inputs = (created, m')"
  shows "\<exists>s'. get_session m' sessionId = Some s'
     \<and> int (length (messages s')) \<le> maxHistoryLength m'
     \<and> messages s' = last_n (nat (maxHistoryLength m'))
                         (getConversationHistory m sessionId None @ created)
     \<and> maxHistoryLength m' = maxHistoryLength m
     \<and> (\<forall>other. other \<noteq> sessionId \<longrightarrow> get_session m' other = get_session m other)"
proof -
  from assms(2) obtain x rest where "inputs = x # rest" by (cases inputs) auto
  with addMessages_run [OF assms(1), of sessionId x rest created m'] assms(3)
  obtain s' where s': "get_session m' sessionId = Some s'"
    "messages s' = last_n (nat (maxHistoryLength m)) (history_of m sessionId @ created)"
    "maxHistoryLength m' = maxHistoryLength m" by auto
  have "getConversationHistory m sessionId None = history_of m sessionId"
    by (simp add: getConversationHistory_def history_of_def split: option.splits)
  moreover have "int (length (messages s')) \<le> maxHistoryLength m'"
    using s'(2,3) assms(1) by (simp add: length_last_n)
  moreover have "\<forall>other. other \<noteq> sessionId \<longrightarrow> get_session m' other = get_session m other"
    using addMessages_other [of _ sessionId m inputs] assms(3) by simp
  ultimately show ?thesis using s' by simp
qed

theorem C4_history_bounded_oldest_dropped_witness:
  "0 < maxHistoryLength constructor \<and> sample_inputs \<noteq> []
   \<and> (\<exists>s'. get_session (snd (addMessages constructor ''s1'' sample_inputs)) ''s1'' = Some s'
     \<and> int (length (messages s')) \<le> maxHistoryLength (snd (addMessages constructor ''s1'' sample_inputs))
     \<and> messages s' = last_n (nat (maxHistoryLength (snd (addMessages constructor ''s1'' sample_inputs))))
          (getConversationHistory constructor ''s1'' None
             @ fst (addMessages constructor ''s1'' sample_inputs)))"
proof -
  have h1: "0 < maxHistoryLength constructor" by (simp add: constructor_def)
  have h2: "sample_inputs \<noteq> []" by (simp add: sample_inputs_def)
  have h3: "addMessages constructor ''s1'' sample_inputs =
              (fst (addMessages constructor ''s1'' sample_inputs),
               snd (addMessages constructor ''s1'' sample_inputs))" by simp
  from C4_history_bounded_oldest_dropped [OF h1 h2 h3] h1 h2 show ?thesis by blast
qed

text \<open>
  C5: appending N messages (N at least one) to a session the store does not know yet leaves
  \<open>messageCount\<close> at N, whatever trimming did to the history.
\<close>

theorem C5_message_count_counts_appends:
  assumes "get_session m sessionId = None" and "inputs \<noteq> []"
    and "addMessages m sessionId inputs = (created, m')"
  shows "\<exists>s'. get_session m' sessionId = Some s'
     \<and> messageCount (sess_metadata s') = length inputs"
proof -
  from assms(2) obtain x rest where "inputs = x # rest" by (cases inputs) auto
  with addMessages_count [of m sessionId x rest created m'] assms(1,3)
  show ?thesis by (simp add: count_of_def)
qed

theorem C5_message_count_counts_appends_witness:
  "get_session constructor ''s1'' = None \<and> sample_inputs \<noteq> []
   \<and> (\<exists>s'. get_session (snd (addMessages constructor ''s1'' sample_inputs)) ''s1'' = Some s'
     \<and> messageCount (sess_metadata s') = length sample_inputs)"
proof -
  have h1: "get_session constructor ''s1'' = None" by (simp add: get_session_def constructor_def)
  have h2: "sample_inputs \<noteq> []" by (simp add: sample_inputs_def)
  have h3: "addMessages constructor ''s1'' sample_inputs =
              (fst (addMessages constructor ''s1'' sample_inputs),
               snd (addMessages constructor ''s1'' sample_inputs))" by simp
  from C5_message_count_counts_appends [OF h1 h2 h3] h1 h2 show ?thesis by blast
qed

section \<open>Context extraction: requirements\<close>

lemma update_issues_fields [simp]:
  "businessRequirements (update_issues content msg c) = businessRequirements c"
  "technicalSpecs (update_issues content msg c) = technicalSpecs c"
  "stakeholders (update_issues content msg c) = stakeholders c"
  "decisions (update_issues content msg c) = decisions c"
  by (simp_all add: update_issues_def split: option.splits)

lemma update_decisions_fields [simp]:
  "businessRequirements (update_decisions content msg c) = businessRequirements c"
  "technicalSpecs (update_decisions content msg c) = technicalSpecs c"
  "stakeholders (update_decisions content msg c) = stakeholders c"
  by (simp_all add: update_decisions_def split: option.splits)

lemma update_stakeholders_fields [simp]:
  "businessRequirements (update_stakeholders content msg c) = businessRequirements c"
  "technicalSpecs (update_stakeholders content msg c) = technicalSpecs c"
  "decisions (update_stakeholders content msg c) = decisions c"
  by (simp_all add: update_stakeholders_def)

lemma update_specs_fields [simp]:
  "businessRequirements (update_specs content msg c) = businessRequirements c"
  "stakeholders (update_specs content msg c) = stakeholders c"
  "decisions (update_specs content msg c) = decisions c"
  by (simp_all add: update_specs_def)

lemma update_requirements_fields [simp]:
  "technicalSpecs (update_requirements content msg c) = technicalSpecs c"
  "stakeholders (update_requirements content msg c) = stakeholders c"
  "decisions (update_requirements content msg c) = decisions c"
  by (simp_all add: update_requirements_def)

lemma update_phase_fields [simp]:
  "businessRequirements (update_phase content c) = businessRequirements c"
  "technicalSpecs (update_phase content c) = technicalSpecs c"
  "stakeholders (update_phase content c) = stakeholders c"
  "decisions (update_phase content c) = decisions c"
  by (simp_all add: update_phase_def)

lemma requirements_after_update:
  "businessRequirements (updateContextFromMessage c msg) =
     (if str_includes (toLowerCase (msg_content msg)) ''business'' \<and>
         (str_includes (toLowerCase (msg_content msg)) ''requirement'' \<or>
          str_includes (toLowerCase (msg_content msg)) ''process'')
      then push_unique (extractRequirementFromMessage (msg_content msg)) (businessRequirements c)
      else businessRequirements c)"
  by (auto simp: updateContextFromMessage_def Let_def update_requirements_def)

lemma multi_currency_facts:
  "str_includes (toLowerCase multi_currency) ''requirement''"
  "str_includes (toLowerCase multi_currency) ''business''"
  "extractRequirementFromMessage multi_currency = Some multi_currency"
  "multi_currency \<noteq> []"
  "str_includes multi_currency ''requirement''"
  by code_simp+

text \<open>
  C2, as the code has it: the message about multi-currency contains the phase term
  \<open>requirement\<close>, so context extraction sets \<open>implementationPhase\<close> to requirements; and
  it appends the whole text of the message, which contains the word \<open>requirement\<close>, to
  \<open>businessRequirements\<close> unless that string is already there.
\<close>

theorem C2_multi_currency_moves_phase_to_requirements:
  assumes "msg_content msg = multi_currency"
  shows "implementationPhase (updateContextFromMessage c msg) = Requirements
     \<and> businessRequirements (updateContextFromMessage c msg) =
         (if multi_currency \<in> set (businessRequirements c) then businessRequirements c
          else businessRequirements c @ [multi_currency])
     \<and> str_includes multi_currency ''requirement''"
  using assms multi_currency_facts
  by (simp add: phase_after_update detect_phase_def requirements_after_update
      push_unique_def)

theorem C2_multi_currency_moves_phase_to_requirements_witness:
  "msg_content (user_message multi_currency) = multi_currency
   \<and> implementationPhase (updateContextFromMessage fresh_context (user_message multi_currency))
       = Requirements
   \<and> businessRequirements (updateContextFromMessage fresh_context (user_message multi_currency))
       = [multi_currency]"
proof -
  have h: "msg_content (user_message multi_currency) = multi_currency"
    by (simp add: user_message_def)
  have e: "businessRequirements fresh_context = []"
    by (simp add: fresh_context_def new_session_def)
  from C2_multi_currency_moves_phase_to_requirements [OF h, of fresh_context] h e
  show ?thesis by simp
qed

text \<open>
  C2 as stated fails: on a new session the message moves the phase from discovery to
  requirements.
\<close>

theorem C2_phase_unchanged_counterexample:
  "implementationPhase (updateContextFromMessage fresh_context (user_message multi_currency))
     \<noteq> implementationPhase fresh_context"
  by code_simp

section \<open>Unknown sessions, history and summary\<close>

text \<open>
  C3: on a store that does not know the session id, the history is empty and the session
  context is \<open>null\<close>, as the claim says; but the clear operation the route invokes,
  \<open>clearMemory\<close>, is not a method of the class, so the call throws a \<open>TypeError\<close>, the
  route answers 500, and a session that is present stays in the store.
\<close>

theorem C3_clear_is_not_a_method:
  "getConversationHistory constructor ''unknown'' None = []
   \<and> getSessionContext constructor ''unknown'' = None
   \<and> ''clearMemory'' \<notin> set ConversationMemory_methods
   \<and> clearMemory constructor ''unknown''
       = Inl (TypeError ''conversationMemory.clearMemory is not a function'')
   \<and> status (fst (clear_route constructor ''unknown'')) = 500
   \<and> get_session (snd (clear_route (snd (addMessage constructor ''s1'' ''hello'' ''user'' env0)) ''s1'')) ''s1''
       \<noteq> None"
  by code_simp

text \<open>
  C10: for a session the store knows, \<open>getConversationHistory\<close> with a positive limit
  returns the last \<open>limit\<close> messages in their original order, and with the limit 0 it
  returns all messages.
\<close>

theorem C10_history_limit:
  assumes "get_session m sessionId = Some s"
  shows "(0 < l \<longrightarrow> getConversationHistory m sessionId (Some l) = last_n (nat l) (messages s))
     \<and> getConversationHistory m sessionId (Some 0) = messages s"
  using assms by (simp add: getConversationHistory_def slice_neg_last_n)

theorem C10_history_limit_witness:
  "get_session sample_memory ''s1'' = Some sample_session
   \<and> getConversationHistory sample_memory ''s1'' (Some 1) = [user_message ''second'']
   \<and> getConversationHistory sample_memory ''s1'' (Some 0)
       = [user_message ''first'', user_message ''second'']"
proof -
  have h: "get_session sample_memory ''s1'' = Some sample_session"
    by (simp add: sample_memory_def)
  from C10_history_limit [OF h, of 1] h show ?thesis
    by (simp add: sample_session_def last_n_def)
qed

lemma truncated_substring:
  "substring0 n s @ (if length s > n then ''...'' else []) = truncated n s"
  by (simp add: substring0_def truncated_def)

lemma story_reached: "get_session story_memory ''s1'' = Some story_session"
  by code_simp

lemma sublist_in_left: "sublist x a \<Longrightarrow> sublist x (a @ b)"
  by (auto simp: sublist_append)

lemma sublist_in_right: "sublist x b \<Longrightarrow> sublist x (a @ b)"
  by (auto simp: sublist_append)

lemma sublist_self: "sublist x x"
  by simp

lemma in_join_lines: "x \<in> set xs \<Longrightarrow> sublist x (join_lines xs)"
  by (induction xs rule: join_lines.induct) (auto simp: sublist_append sublist_Cons_right)

lemma line_in_join_lines: "x \<in> set xs \<Longrightarrow> sublist (f x) (join_lines (map f xs))"
  by (rule in_join_lines) simp

text \<open>
  C6: for a session the store knows, the context summary is exactly the fixed template
  filled with the persona, the phase, the message counter, the last 5 business requirements,
  the last 3 technical specifications, the last 3 decisions with their timestamps, the last
  3 of the issues whose status is open, and the last 5 messages, each content cut to 200
  characters with \<open>...\<close> appended if and only if it was longer; and each of these items
  occurs in the text.
\<close>

theorem C6_summary_contents:
  assumes "get_session m sessionId = Some s"
  shows "generateContextSummary date_str m sessionId =
     [CHR 0x0A] @ ''CONVERSATION CONTEXT:'' @ [CHR 0x0A] @
     ''- Current Persona: '' @ persona s @ [CHR 0x0A] @
     ''- Implementation Phase: '' @ phase_name (implementationPhase (sess_context s)) @ [CHR 0x0A] @
     ''- Total Messages: '' @ show_nat (messageCount (sess_metadata s)) @ [CHR 0x0A] @
     [CHR 0x0A] @ ''BUSINESS REQUIREMENTS IDENTIFIED:'' @ [CHR 0x0A] @
     join_lines (map (\<lambda>req. ''- '' @ req) (last_n 5 (businessRequirements (sess_context s)))) @
     [CHR 0x0A] @
     [CHR 0x0A] @ ''TECHNICAL SPECIFICATIONS:'' @ [CHR 0x0A] @
     join_lines (map (\<lambda>spec. ''- '' @ spec) (last_n 3 (technicalSpecs (sess_context s)))) @
     [CHR 0x0A] @
     [CHR 0x0A] @ ''RECENT DECISIONS:'' @ [CHR 0x0A] @
     join_lines (map (\<lambda>dec. ''- '' @ dec_decision dec @ '' ('' @ date_str (dec_timestamp dec) @ '')'')
                   (last_n 3 (decisions (sess_context s)))) @
     [CHR 0x0A] @
     [CHR 0x0A] @ ''OPEN ISSUES:'' @ [CHR 0x0A] @
     join_lines (map (\<lambda>i. ''- '' @ iss_issue i @ '' ('' @ date_str (iss_timestamp i) @ '')'')
                   (last_n 3 (filter (\<lambda>i. iss_status i = Open) (openIssues (sess_context s))))) @
     [CHR 0x0A] @
     [CHR 0x0A] @ ''RECENT CONVERSATION:'' @ [CHR 0x0A] @
     join_lines (map (\<lambda>msg. msg_role msg @ '': '' @ truncated 200 (msg_content msg))
                   (last_n 5 (messages s))) @
     [CHR 0x0A] @ ''    ''
   \<and> sublist (''- Current Persona: '' @ persona s) (generateContextSummary date_str m sessionId)
   \<and> sublist (''- Implementation Phase: '' @ phase_name (implementationPhase (sess_context s)))
        (generateContextSummary date_str m sessionId)
   \<and> sublist (''- Total Messages: '' @ show_nat (messageCount (sess_metadata s)))
        (generateContextSummary date_str m sessionId)
   \<and> (\<forall>req \<in> set (last_n 5 (businessRequirements (sess_context s))).
        sublist (''- '' @ req) (generateContextSummary date_str m sessionId))
   \<and> (\<forall>spec \<in> set (last_n 3 (technicalSpecs (sess_context s))).
        sublist (''- '' @ spec) (generateContextSummary date_str m sessionId))
   \<and> (\<forall>dec \<in> set (last_n 3 (decisions (sess_context s))).
        sublist (''- '' @ dec_decision dec @ '' ('' @ date_str (dec_timestamp dec) @ '')'')
          (generateContextSummary date_str m sessionId))
   \<and> (\<forall>i \<in> set (last_n 3 (filter (\<lambda>i. iss_status i = Open) (openIssues (sess_context s)))).
        sublist (''- '' @ iss_issue i @ '' ('' @ date_str (iss_timestamp i) @ '')'')
          (generateContextSummary date_str m sessionId))
   \<and> (\<forall>msg \<in> set (last_n 5 (messages s)).
        sublist (msg_role msg @ '': '' @ truncated 200 (msg_content msg))
          (generateContextSummary date_str m sessionId))"
proof -
  have 5: "slice (- 5) xs = last_n 5 xs" for xs :: "'a list"
    using slice_neg_last_n [of 5 xs] by simp
  have 3: "slice (- 3) xs = last_n 3 xs" for xs :: "'a list"
    using slice_neg_last_n [of 3 xs] by simp
  let ?reqs = "join_lines (map (\<lambda>req. ''- '' @ req) (last_n 5 (businessRequirements (sess_context s))))"
  let ?specs = "join_lines (map (\<lambda>spec. ''- '' @ spec) (last_n 3 (technicalSpecs (sess_context s))))"
  let ?decs = "join_lines (map (\<lambda>dec. ''- '' @ dec_decision dec @ '' ('' @ date_str (dec_timestamp dec) @ '')'')
                   (last_n 3 (decisions (sess_context s))))"
  let ?issues = "join_lines (map (\<lambda>i. ''- '' @ iss_issue i @ '' ('' @ date_str (iss_timestamp i) @ '')'')
                   (last_n 3 (filter (\<lambda>i. iss_status i = Open) (openIssues (sess_context s)))))"
  let ?msgs = "join_lines (map (\<lambda>msg. msg_role msg @ '': '' @ truncated 200 (msg_content msg))
                   (last_n 5 (messages s)))"
  let ?persona = "''- Current Persona: '' @ persona s"
  let ?phase = "''- Implementation Phase: '' @ phase_name (implementationPhase (sess_context s))"
  let ?count = "''- Total Messages: '' @ show_nat (messageCount (sess_metadata s))"
  let ?text = "generateContextSummary date_str m sessionId"
  have eq: "?text =
     ([CHR 0x0A] @ ''CONVERSATION CONTEXT:'' @ [CHR 0x0A]) @ ?persona @ [CHR 0x0A] @ ?phase @
     [CHR 0x0A] @ ?count @ ([CHR 0x0A, CHR 0x0A] @ ''BUSINESS REQUIREMENTS IDENTIFIED:'' @ [CHR 0x0A]) @
     ?reqs @ ([CHR 0x0A, CHR 0x0A] @ ''TECHNICAL SPECIFICATIONS:'' @ [CHR 0x0A]) @
     ?specs @ ([CHR 0x0A, CHR 0x0A] @ ''RECENT DECISIONS:'' @ [CHR 0x0A]) @
     ?decs @ ([CHR 0x0A, CHR 0x0A] @ ''OPEN ISSUES:'' @ [CHR 0x0A]) @
     ?issues @ ([CHR 0x0A, CHR 0x0A] @ ''RECENT CONVERSATION:'' @ [CHR 0x0A]) @
     ?msgs @ [CHR 0x0A] @ ''    ''"
    using assms
    by (simp add: generateContextSummary_def build_summary_def render_summary_def nl_def 5 3
        summarize_message_def truncated_substring comp_def)
  have persona: "sublist ?persona ?text"
    unfolding eq by (intro sublist_in_right sublist_in_left sublist_self)
  have phase: "sublist ?phase ?text"
    unfolding eq by (intro sublist_in_right sublist_in_left sublist_self)
  have count: "sublist ?count ?text"
    unfolding eq by (intro sublist_in_right sublist_in_left sublist_self)
  have reqs: "sublist ?reqs ?text"
    unfolding eq by (intro sublist_in_right sublist_in_left sublist_self)
  have specs: "sublist ?specs ?text"
    unfolding eq by (intro sublist_in_right sublist_in_left sublist_self)
  have decs: "sublist ?decs ?text"
    unfolding eq by (intro sublist_in_right sublist_in_left sublist_self)
  have issues: "sublist ?issues ?text"
    unfolding eq by (intro sublist_in_right sublist_in_left sublist_self)
  have msgs: "sublist ?msgs ?text"
    unfolding eq by (intro sublist_in_right sublist_in_left sublist_self)
  have whole: "?text =
     [CHR 0x0A] @ ''CONVERSATION CONTEXT:'' @ [CHR 0x0A] @
     ''- Current Persona: '' @ persona s @ [CHR 0x0A] @
     ''- Implementation Phase: '' @ phase_name (implementationPhase (sess_context s)) @ [CHR 0x0A] @
     ''- Total Messages: '' @ show_nat (messageCount (sess_metadata s)) @ [CHR 0x0A] @
     [CHR 0x0A] @ ''BUSINESS REQUIREMENTS IDENTIFIED:'' @ [CHR 0x0A] @ ?reqs @
     [CHR 0x0A] @
     [CHR 0x0A] @ ''TECHNICAL SPECIFICATIONS:'' @ [CHR 0x0A] @ ?specs @
     [CHR 0x0A] @
     [CHR 0x0A] @ ''RECENT DECISIONS:'' @ [CHR 0x0A] @ ?decs @
     [CHR 0x0A] @
     [CHR 0x0A] @ ''OPEN ISSUES:'' @ [CHR 0x0A] @ ?issues @
     [CHR 0x0A] @
     [CHR 0x0A] @ ''RECENT CONVERSATION:'' @ [CHR 0x0A] @ ?msgs @
     [CHR 0x0A] @ ''    ''"
    using assms
    by (simp add: generateContextSummary_def build_summary_def render_summary_def nl_def 5 3
        summarize_message_def truncated_substring comp_def)
  have in_reqs: "sublist (''- '' @ req) ?text"
    if "req \<in> set (last_n 5 (businessRequirements (sess_context s)))" for req
    using line_in_join_lines [OF that, of "\<lambda>req. ''- '' @ req"] reqs
    by (rule sublist_order.order_trans)
  have in_specs: "sublist (''- '' @ spec) ?text"
    if "spec \<in> set (last_n 3 (technicalSpecs (sess_context s)))" for spec
    using line_in_join_lines [OF that, of "\<lambda>spec. ''- '' @ spec"] specs
    by (rule sublist_order.order_trans)
  have in_decs: "sublist (''- '' @ dec_decision dec @ '' ('' @ date_str (dec_timestamp dec) @ '')'') ?text"
    if "dec \<in> set (last_n 3 (decisions (sess_context s)))" for dec
    using line_in_join_lines [OF that,
        of "\<lambda>dec. ''- '' @ dec_decision dec @ '' ('' @ date_str (dec_timestamp dec) @ '')''"] decs
    by (rule sublist_order.order_trans)
  have in_issues: "sublist (''- '' @ iss_issue i @ '' ('' @ date_str (iss_timestamp i) @ '')'') ?text"
    if "i \<in> set (last_n 3 (filter (\<lambda>i. iss_status i = Open) (openIssues (sess_context s))))" for i
    using line_in_join_lines [OF that,
        of "\<lambda>i. ''- '' @ iss_issue i @ '' ('' @ date_str (iss_timestamp i) @ '')''"] issues
    by (rule sublist_order.order_trans)
  have in_msgs: "sublist (msg_role msg @ '': '' @ truncated 200 (msg_content msg)) ?text"
    if "msg \<in> set (last_n 5 (messages s))" for msg
    using line_in_join_lines [OF that,
        of "\<lambda>msg. msg_role msg @ '': '' @ truncated 200 (msg_content msg)"] msgs
    by (rule sublist_order.order_trans)
  from whole persona phase count in_reqs in_specs in_decs in_issues in_msgs
  show ?thesis by blast
qed



theorem C6_summary_contents_witness:
  "get_session story_memory ''s1'' = Some story_session
   \<and> generateContextSummary (\<lambda>t. show_nat (nat t)) story_memory ''s1'' =
     concat (map (\<lambda>line. line @ [CHR 0x0A])
       [[],
        ''CONVERSATION CONTEXT:'',
        ''- Current Persona: general'',
        ''- Implementation Phase: requirements'',
        ''- Total Messages: 7'',
        [],
        ''BUSINESS REQUIREMENTS IDENTIFIED:'',
        ''- Business requirement 2: the system must post invoices'',
        ''- Business requirement 3: the system must post invoices'',
        ''- Business requirement 4: the system must post invoices'',
        ''- Business requirement 5: the system must post invoices'',
        ''- Business requirement 6: the system must post invoices'',
        [],
        ''TECHNICAL SPECIFICATIONS:'',
        ''- Business requirement 4: the system must post invoices'',
        ''- Business requirement 5: the system must post invoices'',
        ''- Business requirement 6: the system must post invoices'',
        [],
        ''RECENT DECISIONS:'',
        ''- We decide on option 4 (4000)'',
        ''- We decide on option 5 (5000)'',
        ''- We decide on option 6 (6000)'',
        [],
        ''OPEN ISSUES:'',
        ''- Problem 3 remains (3000)'',
        ''- Problem 4 remains (4000)'',
        ''- Problem 6 remains (6000)'',
        [],
        ''RECENT CONVERSATION:'',
        ''user: Business requirement 3: the system must post invoices. We decide on option 3. Problem 3 remains'',
        ''user: Business requirement 4: the system must post invoices. We decide on option 4. Problem 4 remains'',
        ''user: Business requirement 5: the system must post invoices. We decide on option 5. Problem 5 remains'',
        ''user: Business requirement 6: the system must post invoices. We decide on option 6. Problem 6 remains'',
        ''assistant: '' @ replicate 200 (CHR ''a'') @ ''...'']) @ ''    ''"
proof -
  have "generateContextSummary (\<lambda>t. show_nat (nat t)) story_memory ''s1'' =
     concat (map (\<lambda>line. line @ [CHR 0x0A])
       [[],
        ''CONVERSATION CONTEXT:'',
        ''- Current Persona: general'',
        ''- Implementation Phase: requirements'',
        ''- Total Messages: 7'',
        [],
        ''BUSINESS REQUIREMENTS IDENTIFIED:'',
        ''- Business requirement 2: the system must post invoices'',
        ''- Business requirement 3: the system must post invoices'',
        ''- Business requirement 4: the system must post invoices'',
        ''- Business requirement 5: the system must post invoices'',
        ''- Business requirement 6: the system must post invoices'',
        [],
        ''TECHNICAL SPECIFICATIONS:'',
        ''- Business requirement 4: the system must post invoices'',
        ''- Business requirement 5: the system must post invoices'',
        ''- Business requirement 6: the system must post invoices'',
        [],
        ''RECENT DECISIONS:'',
        ''- We decide on option 4 (4000)'',
        ''- We decide on option 5 (5000)'',
        ''- We decide on option 6 (6000)'',
        [],
        ''OPEN ISSUES:'',
        ''- Problem 3 remains (3000)'',
        ''- Problem 4 remains (4000)'',
        ''- Problem 6 remains (6000)'',
        [],
        ''RECENT CONVERSATION:'',
        ''user: Business requirement 3: the system must post invoices. We decide on option 3. Problem 3 remains'',
        ''user: Business requirement 4: the system must post invoices. We decide on option 4. Problem 4 remains'',
        ''user: Business requirement 5: the system must post invoices. We decide on option 5. Problem 5 remains'',
        ''user: Business requirement 6: the system must post invoices. We decide on option 6. Problem 6 remains'',
        ''assistant: '' @ replicate 200 (CHR ''a'') @ ''...'']) @ ''    ''"
    by (subst C6_summary_contents [OF story_reached, THEN conjunct1])
       (simp add: story_session_def story_message_def story_requirement_def story_decision_def
          story_issue_def story_line_def last_n_def truncated_def show_nat.simps)
  with story_reached show ?thesis by (rule conjI)
qed

section \<open>Expiry sweep\<close>

lemma fold_delete_session:
  "conversations (fold delete_session ks m) = filter (\<lambda>p. fst p \<notin> set ks) (conversations m)"
  by (induction ks arbitrary: m)
     (auto simp: delete_session_def AList.delete_eq intro: filter_cong)

lemma fold_delete_session_limits:
  "maxHistoryLength (fold delete_session ks m) = maxHistoryLength m
   \<and> sessionTimeout (fold delete_session ks m) = sessionTimeout m"
  by (induction ks arbitrary: m) (simp_all add: delete_session_def)

lemma key_in_filtered:
  assumes "distinct (map fst al)" and "(k, v) \<in> set al"
  shows "k \<in> set (map fst (filter P al)) \<longleftrightarrow> P (k, v)"
proof
  assume "k \<in> set (map fst (filter P al))"
  then obtain v' where v': "(k, v') \<in> set al" "P (k, v')" by auto
  with assms have "v' = v" by (meson eq_key_imp_eq_value)
  with v' show "P (k, v)" by simp
next
  assume "P (k, v)"
  with assms(2) show "k \<in> set (map fst (filter P al))" by force
qed

text \<open>
  C8: \<open>cleanupExpiredSessions\<close> keeps, in their order and unchanged, exactly the sessions
  whose time since \<open>lastActivity\<close> does not exceed \<open>sessionTimeout\<close>, removes the others,
  and returns how many it removed. The keys of the \<open>Map\<close> are distinct.
\<close>

theorem C8_sweep_removes_exactly_expired:
  assumes "distinct (map fst (conversations m))"
  shows "conversations (snd (cleanupExpiredSessions m now)) =
           filter (\<lambda>(sessionId, s). \<not> now - lastActivity (sess_metadata s) > sessionTimeout m)
                  (conversations m)
     \<and> fst (cleanupExpiredSessions m now) =
           length (filter (\<lambda>(sessionId, s). now - lastActivity (sess_metadata s) > sessionTimeout m)
                  (conversations m))
     \<and> fst (cleanupExpiredSessions m now) =
           length (conversations m) - length (conversations (snd (cleanupExpiredSessions m now)))"
proof -
  let ?P = "\<lambda>(sessionId, s). is_expired m now s"
  let ?al = "conversations m"
  have keep: "filter (\<lambda>p. fst p \<notin> set (map fst (filter ?P ?al))) ?al = filter (\<lambda>p. \<not> ?P p) ?al"
  proof (rule filter_cong [OF refl])
    fix p assume "p \<in> set ?al"
    then have "(fst p, snd p) \<in> set ?al" by simp
    from key_in_filtered [OF assms this, of ?P]
    show "(fst p \<notin> set (map fst (filter ?P ?al))) = (\<not> ?P p)" by simp
  qed
  have a: "conversations (snd (cleanupExpiredSessions m now)) = filter (\<lambda>p. \<not> ?P p) ?al"
    by (simp add: cleanupExpiredSessions_def Let_def fold_delete_session keep del: set_map)
  have b: "fst (cleanupExpiredSessions m now) = length (filter ?P ?al)"
    by (simp add: cleanupExpiredSessions_def Let_def)
  have c: "length (filter ?P ?al) = length ?al - length (filter (\<lambda>p. \<not> ?P p) ?al)"
    using sum_length_filter_compl [of ?P ?al] by simp
  from a b c show ?thesis
    by (simp add: is_expired_def case_prod_unfold)
qed


theorem C8_sweep_removes_exactly_expired_witness:
  "distinct (map fst (conversations two_sessions))
   \<and> fst (cleanupExpiredSessions two_sessions 90000001) = 1
   \<and> map fst (conversations (snd (cleanupExpiredSessions two_sessions 90000001))) = [''new'']"
proof -
  have h: "distinct (map fst (conversations two_sessions))"
    by (simp add: two_sessions_def set_session_def constructor_def)
  have al: "conversations two_sessions =
      [(''old'', new_session ''old'' ''general'' (env0\<lparr>t_init_activity := 0\<rparr>)),
       (''new'', new_session ''new'' ''general'' (env0\<lparr>t_init_activity := 90000000\<rparr>))]"
    by (simp add: two_sessions_def set_session_def constructor_def)
  have t: "sessionTimeout two_sessions = 86400000"
    by (simp add: two_sessions_def constructor_def)
  from C8_sweep_removes_exactly_expired [OF h, of 90000001] h show ?thesis
    by (simp add: al t new_session_def)
qed

section \<open>Chat orchestrator\<close>


lemma getSystemPrompt_returns: "\<exists>sp. getSystemPrompt templates tag ctx = Inr sp"
  by (cases "select_prompt templates tag ctx") (simp_all add: getSystemPrompt_def try_catch_def)






section \<open>Context extraction: duplicates\<close>

lemma starts_with_prefix: "starts_with s p = prefix p s"
  by (induction s p rule: starts_with.induct) auto

lemma str_includes_sublist: "str_includes s k = sublist k s"
  by (induction s) (simp_all add: starts_with_prefix sublist_Cons_right)

lemma sublist_skip_char:
  assumes "sublist k (a @ c # b)" and "c \<notin> set k"
  shows "sublist k a \<or> sublist k b"
proof -
  from assms(1) consider "sublist k a" | "sublist k (c # b)"
    | k1 k2 where "k = k1 @ k2" "suffix k1 a" "prefix k2 (c # b)"
    by (auto simp: sublist_append)
  then show ?thesis
  proof cases
    case 1
    then show ?thesis by simp
  next
    case 2
    then have "prefix k (c # b) \<or> sublist k b" by (simp add: sublist_Cons_right)
    with assms(2) show ?thesis by (cases k) auto
  next
    case 3
    with assms(2) have "k2 = []" by (cases k2) auto
    with 3 show ?thesis by auto
  qed
qed

lemma split_aux_keeps_keyword:
  assumes "\<forall>c \<in> set k. \<not> is_delim c"
  shows "sublist k (rev cur @ s) \<Longrightarrow> \<exists>p \<in> set (split_aux cur in_run s). sublist k p"
proof (induction s arbitrary: cur in_run)
  case Nil
  then show ?case by simp
next
  case (Cons c cs)
  show ?case
  proof (cases "is_delim c")
    case False
    with Cons.IH [of "c # cur" False] Cons.prems show ?thesis by simp
  next
    case True
    with assms have "c \<notin> set k" by auto
    from sublist_skip_char [OF Cons.prems this] have or: "sublist k (rev cur) \<or> sublist k cs" .
    show ?thesis
    proof (cases in_run)
      case True
      from or have "sublist k (rev cur @ cs)" by (auto simp: sublist_append)
      with Cons.IH [of cur True] True \<open>is_delim c\<close> show ?thesis by simp
    next
      case False
      from or show ?thesis
      proof
        assume "sublist k (rev cur)"
        with False \<open>is_delim c\<close> show ?thesis by simp
      next
        assume "sublist k cs"
        with Cons.IH [of "[]" True] False \<open>is_delim c\<close> show ?thesis by simp
      qed
    qed
  qed
qed

lemma lower_char_delim: "is_delim (lower_char c) = is_delim c"
  by (auto simp: lower_char_def is_delim_def split: if_splits)

lemma lower_char_space: "is_space (lower_char c) = is_space c"
  by (auto simp: lower_char_def is_space_def split: if_splits)

lemma split_aux_lower:
  "split_aux (map lower_char cur) in_run (map lower_char s)
     = map (map lower_char) (split_aux cur in_run s)"
proof (induction s arbitrary: cur in_run)
  case Nil
  show ?case by (simp add: rev_map)
next
  case (Cons c cs)
  from Cons.IH [of "c # cur" False] Cons.IH [of "[]" True] Cons.IH [of cur True]
  show ?case by (simp add: lower_char_delim rev_map)
qed

lemma split_sentences_lower:
  "split_sentences (toLowerCase s) = map toLowerCase (split_sentences s)"
  using split_aux_lower [of "[]" False s]
  by (simp add: split_sentences_def toLowerCase_def [abs_def])


lemma in_set_dropWhile: "c \<in> set s \<Longrightarrow> \<not> P c \<Longrightarrow> c \<in> set (dropWhile P s)"
  by (induction s) auto

lemma trim_nonempty:
  assumes "c \<in> set s" and "\<not> is_space c"
  shows "trim s \<noteq> []"
proof -
  from assms have "c \<in> set (rev (dropWhile is_space s))"
    by (simp add: in_set_dropWhile)
  then have "c \<in> set (dropWhile is_space (rev (dropWhile is_space s)))"
    using assms(2) by (rule in_set_dropWhile)
  then show ?thesis
    unfolding trim_def by (metis empty_iff empty_set rev_is_Nil_conv)
qed

lemma keyword_sentence_nonempty:
  assumes "plain_keyword k" and "str_includes (toLowerCase p) k"
  shows "trim p \<noteq> []"
proof -
  from assms(1) obtain x xs where k: "k = x # xs" and x: "\<not> is_space x"
    by (cases k) (auto simp: plain_keyword_def)
  from assms(2) have "sublist k (map lower_char p)"
    by (simp add: str_includes_sublist toLowerCase_def)
  then have "set k \<subseteq> set (map lower_char p)"
    by (rule set_mono_sublist)
  with k obtain c where c: "c \<in> set p" "lower_char c = x" by auto
  with x have "\<not> is_space c" using lower_char_space [of c] by simp
  with c show ?thesis by (rule_tac trim_nonempty)
qed

lemma first_sentence_found:
  assumes "\<forall>k \<in> set kws. plain_keyword k"
    and "\<exists>p \<in> set ss. \<exists>k \<in> set kws. str_includes (toLowerCase p) k"
  shows "\<exists>d. first_sentence kws ss = Some d \<and> d \<noteq> []"
  using assms(2)
proof (induction ss)
  case Nil
  then show ?case by simp
next
  case (Cons p ps)
  show ?case
  proof (cases "\<exists>k \<in> set kws. str_includes (toLowerCase p) k")
    case True
    then obtain k where "k \<in> set kws" "str_includes (toLowerCase p) k" by blast
    with assms(1) have "trim p \<noteq> []"
      using keyword_sentence_nonempty [of k p] by blast
    with True show ?thesis by simp
  next
    case False
    with Cons show ?thesis by auto
  qed
qed

lemma keyword_in_some_sentence:
  assumes "plain_keyword k" and "str_includes (toLowerCase body) k"
  shows "\<exists>p \<in> set (split_sentences body). str_includes (toLowerCase p) k"
proof -
  from assms(1) have nd: "\<forall>c \<in> set k. \<not> is_delim c" by (simp add: plain_keyword_def)
  from assms(2) have "sublist k (rev [] @ toLowerCase body)" by (simp add: str_includes_sublist)
  from split_aux_keeps_keyword [OF nd this, of False]
  have "\<exists>q \<in> set (split_sentences (toLowerCase body)). sublist k q"
    by (simp add: split_sentences_def)
  then show ?thesis by (auto simp: split_sentences_lower str_includes_sublist)
qed

lemma extraction_found:
  assumes "\<forall>k \<in> set kws. plain_keyword k" and "k \<in> set kws"
    and "str_includes (toLowerCase body) k"
  shows "\<exists>d. first_sentence kws (split_sentences body) = Some d \<and> d \<noteq> []"
proof -
  from assms have "\<exists>p \<in> set (split_sentences body). str_includes (toLowerCase p) k"
    by (auto intro: keyword_in_some_sentence)
  with assms(2) first_sentence_found [OF assms(1)] show ?thesis by blast
qed

lemma decision_keywords_plain: "\<forall>k \<in> set [''decide'', ''choose'', ''select'']. plain_keyword k"
  by (simp add: plain_keyword_def is_delim_def is_space_def)

lemma decision_extracted:
  assumes "str_includes (toLowerCase body) ''decide'' \<or> str_includes (toLowerCase body) ''choose''
           \<or> str_includes (toLowerCase body) ''select''"
  shows "\<exists>d. extractDecisionFromMessage body = Some d \<and> d \<noteq> []"
proof -
  from assms obtain k where "k \<in> set [''decide'', ''choose'', ''select'']"
    "str_includes (toLowerCase body) k" by auto
  from extraction_found [OF decision_keywords_plain this] show ?thesis
    by (simp add: extractDecisionFromMessage_def)
qed


lemma push_unique_distinct: "distinct xs \<Longrightarrow> distinct (push_unique x xs)"
  by (simp add: push_unique_def split: option.splits)

lemma specs_after_update:
  "technicalSpecs (updateContextFromMessage c msg) =
     (if str_includes (toLowerCase (msg_content msg)) ''technical'' \<or>
         str_includes (toLowerCase (msg_content msg)) ''system'' \<or>
         str_includes (toLowerCase (msg_content msg)) ''integration''
      then push_unique (extractTechnicalSpecFromMessage (msg_content msg)) (technicalSpecs c)
      else technicalSpecs c)"
  by (auto simp: updateContextFromMessage_def Let_def update_specs_def)

lemma stakeholders_after_update:
  "stakeholders (updateContextFromMessage c msg) =
     (if str_includes (toLowerCase (msg_content msg)) ''stakeholder'' \<or>
         str_includes (toLowerCase (msg_content msg)) ''team'' \<or>
         str_includes (toLowerCase (msg_content msg)) ''user''
      then push_unique (extractStakeholderFromMessage (msg_content msg)) (stakeholders c)
      else stakeholders c)"
  by (auto simp: updateContextFromMessage_def Let_def update_stakeholders_def)

lemma decisions_after_update:
  assumes "extractDecisionFromMessage (msg_content msg) = Some d" and "d \<noteq> []"
    and "str_includes (toLowerCase (msg_content msg)) ''decide'' \<or>
         str_includes (toLowerCase (msg_content msg)) ''choose'' \<or>
         str_includes (toLowerCase (msg_content msg)) ''select''"
  shows "decisions (updateContextFromMessage c msg) =
     decisions c @ [\<lparr>dec_decision = d, dec_timestamp = msg_timestamp msg,
                     dec_messageId = msg_id msg\<rparr>]"
  using assms by (auto simp: updateContextFromMessage_def Let_def update_decisions_def)

lemma first_sentence_nonempty:
  assumes "\<forall>k \<in> set kws. plain_keyword k"
  shows "first_sentence kws ss = Some d \<Longrightarrow> d \<noteq> []"
proof (induction ss)
  case Nil
  then show ?case by simp
next
  case (Cons p ps)
  show ?case
  proof (cases "\<exists>k \<in> set kws. str_includes (toLowerCase p) k")
    case True
    then obtain k where "k \<in> set kws" "str_includes (toLowerCase p) k" by blast
    with assms have "trim p \<noteq> []"
      using keyword_sentence_nonempty [of k p] by blast
    with True Cons.prems show ?thesis by simp
  next
    case False
    with Cons show ?thesis by simp
  qed
qed

lemma sentence_keywords_plain:
  "\<forall>k \<in> set [''requirement'', ''need'', ''must'']. plain_keyword k"
  "\<forall>k \<in> set [''system'', ''technical'', ''integration'']. plain_keyword k"
  "\<forall>k \<in> set [''team'', ''user'', ''stakeholder'']. plain_keyword k"
  by (simp_all add: plain_keyword_def is_delim_def is_space_def)

lemma extracted_nonempty:
  "extractRequirementFromMessage body = Some r \<Longrightarrow> r \<noteq> []"
  "extractTechnicalSpecFromMessage body = Some r \<Longrightarrow> r \<noteq> []"
  "extractStakeholderFromMessage body = Some r \<Longrightarrow> r \<noteq> []"
  using first_sentence_nonempty [OF sentence_keywords_plain(1)]
    first_sentence_nonempty [OF sentence_keywords_plain(2)]
    first_sentence_nonempty [OF sentence_keywords_plain(3)]
  by (auto simp: extractRequirementFromMessage_def extractTechnicalSpecFromMessage_def
      extractStakeholderFromMessage_def)

lemma push_unique_absent: "r \<noteq> [] \<Longrightarrow> r \<notin> set xs \<Longrightarrow> push_unique (Some r) xs = xs @ [r]"
  by (simp add: push_unique_def)

lemma push_unique_present: "r \<in> set xs \<Longrightarrow> push_unique (Some r) xs = xs"
  by (simp add: push_unique_def)

text \<open>
  C9: context extraction appends the sentence it extracts to \<open>businessRequirements\<close> when
  the list does not hold that string yet and leaves the list alone when it does, so the list
  stays free of duplicates; likewise \<open>technicalSpecs\<close> and \<open>stakeholders\<close>. Every message
  whose lowercased text contains \<open>decide\<close>, \<open>choose\<close> or \<open>select\<close> appends one decision
  entry, whatever the list already holds.
\<close>

theorem C9_sentences_deduplicated_decisions_not:
  assumes "distinct (businessRequirements c)" and "distinct (technicalSpecs c)"
    and "distinct (stakeholders c)"
  shows "distinct (businessRequirements (updateContextFromMessage c msg))
     \<and> distinct (technicalSpecs (updateContextFromMessage c msg))
     \<and> distinct (stakeholders (updateContextFromMessage c msg))
     \<and> (str_includes (toLowerCase (msg_content msg)) ''business'' \<and>
        (str_includes (toLowerCase (msg_content msg)) ''requirement'' \<or>
         str_includes (toLowerCase (msg_content msg)) ''process'') \<and>
        extractRequirementFromMessage (msg_content msg) = Some r \<and>
        r \<notin> set (businessRequirements c) \<longrightarrow>
        businessRequirements (updateContextFromMessage c msg) = businessRequirements c @ [r])
     \<and> (extractRequirementFromMessage (msg_content msg) = Some r \<and>
        r \<in> set (businessRequirements c) \<longrightarrow>
        businessRequirements (updateContextFromMessage c msg) = businessRequirements c)
     \<and> ((str_includes (toLowerCase (msg_content msg)) ''technical'' \<or>
         str_includes (toLowerCase (msg_content msg)) ''system'' \<or>
         str_includes (toLowerCase (msg_content msg)) ''integration'') \<and>
        extractTechnicalSpecFromMessage (msg_content msg) = Some s \<and>
        s \<notin> set (technicalSpecs c) \<longrightarrow>
        technicalSpecs (updateContextFromMessage c msg) = technicalSpecs c @ [s])
     \<and> (extractTechnicalSpecFromMessage (msg_content msg) = Some s \<and>
        s \<in> set (technicalSpecs c) \<longrightarrow>
        technicalSpecs (updateContextFromMessage c msg) = technicalSpecs c)
     \<and> ((str_includes (toLowerCase (msg_content msg)) ''stakeholder'' \<or>
         str_includes (toLowerCase (msg_content msg)) ''team'' \<or>
         str_includes (toLowerCase (msg_content msg)) ''user'') \<and>
        extractStakeholderFromMessage (msg_content msg) = Some h \<and>
        h \<notin> set (stakeholders c) \<longrightarrow>
        stakeholders (updateContextFromMessage c msg) = stakeholders c @ [h])
     \<and> (extractStakeholderFromMessage (msg_content msg) = Some h \<and>
        h \<in> set (stakeholders c) \<longrightarrow>
        stakeholders (updateContextFromMessage c msg) = stakeholders c)
     \<and> (str_includes (toLowerCase (msg_content msg)) ''decide'' \<or>
        str_includes (toLowerCase (msg_content msg)) ''choose'' \<or>
        str_includes (toLowerCase (msg_content msg)) ''select'' \<longrightarrow>
        (\<exists>d. extractDecisionFromMessage (msg_content msg) = Some d \<and>
             decisions (updateContextFromMessage c msg) =
               decisions c @ [\<lparr>dec_decision = d, dec_timestamp = msg_timestamp msg,
                               dec_messageId = msg_id msg\<rparr>]))"
proof (intro conjI impI)
  show "distinct (businessRequirements (updateContextFromMessage c msg))"
    using assms(1) by (simp add: requirements_after_update push_unique_distinct)
  show "distinct (technicalSpecs (updateContextFromMessage c msg))"
    using assms(2) by (simp add: specs_after_update push_unique_distinct)
  show "distinct (stakeholders (updateContextFromMessage c msg))"
    using assms(3) by (simp add: stakeholders_after_update push_unique_distinct)
next
  assume "str_includes (toLowerCase (msg_content msg)) ''business'' \<and>
        (str_includes (toLowerCase (msg_content msg)) ''requirement'' \<or>
         str_includes (toLowerCase (msg_content msg)) ''process'') \<and>
        extractRequirementFromMessage (msg_content msg) = Some r \<and>
        r \<notin> set (businessRequirements c)"
  then show "businessRequirements (updateContextFromMessage c msg) = businessRequirements c @ [r]"
    using extracted_nonempty(1) [of "msg_content msg" r]
    by (simp add: requirements_after_update push_unique_absent)
next
  assume "extractRequirementFromMessage (msg_content msg) = Some r \<and>
        r \<in> set (businessRequirements c)"
  then show "businessRequirements (updateContextFromMessage c msg) = businessRequirements c"
    by (simp add: requirements_after_update push_unique_present)
next
  assume "(str_includes (toLowerCase (msg_content msg)) ''technical'' \<or>
         str_includes (toLowerCase (msg_content msg)) ''system'' \<or>
         str_includes (toLowerCase (msg_content msg)) ''integration'') \<and>
        extractTechnicalSpecFromMessage (msg_content msg) = Some s \<and>
        s \<notin> set (technicalSpecs c)"
  then show "technicalSpecs (updateContextFromMessage c msg) = technicalSpecs c @ [s]"
    using extracted_nonempty(2) [of "msg_content msg" s]
    by (simp add: specs_after_update push_unique_absent)
next
  assume "extractTechnicalSpecFromMessage (msg_content msg) = Some s \<and>
        s \<in> set (technicalSpecs c)"
  then show "technicalSpecs (updateContextFromMessage c msg) = technicalSpecs c"
    by (simp add: specs_after_update push_unique_present)
next
  assume "(str_includes (toLowerCase (msg_content msg)) ''stakeholder'' \<or>
         str_includes (toLowerCase (msg_content msg)) ''team'' \<or>
         str_includes (toLowerCase (msg_content msg)) ''user'') \<and>
        extractStakeholderFromMessage (msg_content msg) = Some h \<and>
        h \<notin> set (stakeholders c)"
  then show "stakeholders (updateContextFromMessage c msg) = stakeholders c @ [h]"
    using extracted_nonempty(3) [of "msg_content msg" h]
    by (simp add: stakeholders_after_update push_unique_absent)
next
  assume "extractStakeholderFromMessage (msg_content msg) = Some h \<and>
        h \<in> set (stakeholders c)"
  then show "stakeholders (updateContextFromMessage c msg) = stakeholders c"
    by (simp add: stakeholders_after_update push_unique_present)
next
  assume trigger: "str_includes (toLowerCase (msg_content msg)) ''decide'' \<or>
        str_includes (toLowerCase (msg_content msg)) ''choose'' \<or>
        str_includes (toLowerCase (msg_content msg)) ''select''"
  from decision_extracted [OF this] obtain d
    where d: "extractDecisionFromMessage (msg_content msg) = Some d" "d \<noteq> []" by blast
  from decisions_after_update [OF d trigger] d(1)
  show "\<exists>d. extractDecisionFromMessage (msg_content msg) = Some d \<and>
             decisions (updateContextFromMessage c msg) =
               decisions c @ [\<lparr>dec_decision = d, dec_timestamp = msg_timestamp msg,
                               dec_messageId = msg_id msg\<rparr>]" by blast
qed

theorem C9_sentences_deduplicated_decisions_not_witness:
  "distinct (businessRequirements fresh_context) \<and> distinct (technicalSpecs fresh_context)
   \<and> distinct (stakeholders fresh_context)
   \<and> businessRequirements (updateContextFromMessage fresh_context twice_told)
       = [''We decided the business requirement is multi-currency'']
   \<and> businessRequirements
        (updateContextFromMessage (updateContextFromMessage fresh_context twice_told) twice_told)
       = [''We decided the business requirement is multi-currency'']
   \<and> technicalSpecs
        (updateContextFromMessage (updateContextFromMessage fresh_context twice_told) twice_told)
       = [''Our team must use the system'']
   \<and> stakeholders
        (updateContextFromMessage (updateContextFromMessage fresh_context twice_told) twice_told)
       = [''Our team must use the system'']
   \<and> map dec_decision
        (decisions
          (updateContextFromMessage (updateContextFromMessage fresh_context twice_told) twice_told))
       = [''We decided the business requirement is multi-currency'',
          ''We decided the business requirement is multi-currency'']"
proof -
  let ?r = "''We decided the business requirement is multi-currency''"
  let ?s = "''Our team must use the system''"
  let ?c1 = "updateContextFromMessage fresh_context twice_told"
  have h: "distinct (businessRequirements fresh_context)" "distinct (technicalSpecs fresh_context)"
    "distinct (stakeholders fresh_context)"
    by (simp_all add: fresh_context_def new_session_def)
  have empty: "businessRequirements fresh_context = []" "technicalSpecs fresh_context = []"
    "stakeholders fresh_context = []" "decisions fresh_context = []"
    by (simp_all add: fresh_context_def new_session_def)
  have t: "str_includes (toLowerCase (msg_content twice_told)) ''business''"
    "str_includes (toLowerCase (msg_content twice_told)) ''requirement''"
    "str_includes (toLowerCase (msg_content twice_told)) ''system''"
    "str_includes (toLowerCase (msg_content twice_told)) ''team''"
    "str_includes (toLowerCase (msg_content twice_told)) ''decide''"
    by code_simp+
  have e: "extractRequirementFromMessage (msg_content twice_told) = Some ?r"
    "extractTechnicalSpecFromMessage (msg_content twice_told) = Some ?s"
    "extractStakeholderFromMessage (msg_content twice_told) = Some ?s"
    "extractDecisionFromMessage (msg_content twice_told) = Some ?r"
    by code_simp+
  note first = C9_sentences_deduplicated_decisions_not
    [OF h, of twice_told ?r ?s ?s]
  from first t e empty have c1: "businessRequirements ?c1 = [?r]" "technicalSpecs ?c1 = [?s]"
    "stakeholders ?c1 = [?s]" "map dec_decision (decisions ?c1) = [?r]"
    by auto
  from first have h1: "distinct (businessRequirements ?c1)" "distinct (technicalSpecs ?c1)"
    "distinct (stakeholders ?c1)" by simp_all
  note second = C9_sentences_deduplicated_decisions_not
    [OF h1, of twice_told ?r ?s ?s]
  from second t e c1 h show ?thesis by auto
qed

end
